theory Spec2Isabelle
  imports Main
begin

section \<open>The monad concept of FTL\<close>

text \<open>
  The header \<^verbatim>\<open>include/ftl/concepts/monad.h\<close> holds class templates whose static member
  functions forward to the member functions of other template instances. A template
  instance is a table of functions; HOL has no quantification over type constructors, so
  every member that a function of the header calls is a parameter of its model, at the
  one type the call site uses, and is named after the instance it is a member of: \<open>bind_M\<close> is \<^verbatim>\<open>monad<M>::bind\<close>, \<open>pure_MU\<close> is
  \<^verbatim>\<open>monad<M_<U>>::pure\<close>, and so on. Callables (\<^verbatim>\<open>F\<close>) are HOL functions. In the types,
  \<open>'t\<close> and \<open>'u\<close> are the element types \<^verbatim>\<open>T\<close> and \<^verbatim>\<open>U\<close>, \<open>'mt\<close> and \<open>'mu\<close> are \<^verbatim>\<open>M_<T>\<close> and
  \<^verbatim>\<open>M_<U>\<close>, \<open>'mmt\<close> is \<^verbatim>\<open>M_<M_<T>>\<close> and \<open>'mf\<close> is the wrapped function \<^verbatim>\<open>Mf_\<close>.
\<close>

subsection \<open>Value categories\<close>

text \<open>
  Most members come in two overloads, one taking the wrapped value by \<^verbatim>\<open>const&\<close> and one
  taking it by \<^verbatim>\<open>&&\<close>, and the operators forward their argument with its category. An
  instance may give the two overloads of a member different bodies, so a member is
  modelled as one function with the category of the wrapped argument as its first argument:
  \<open>bind lvalue m f\<close> is the call \<^verbatim>\<open>bind(m, f)\<close> on a named object, \<open>bind rvalue m f\<close> the call
  \<^verbatim>\<open>bind(std::move(m), f)\<close> or a call on a temporary. An instance with a single
  \<^verbatim>\<open>const&\<close> overload is a function that ignores the category.
\<close>

datatype value_category = lvalue | rvalue

subsection \<open>The derivation strategies\<close>

text \<open>
  \<^verbatim>\<open>deriving_join<M>::join\<close> (monad.h, lines 260 to 274). The first equation is the
  \<^verbatim>\<open>const M_<M_<T>>&\<close> overload, the second the \<^verbatim>\<open>M_<M_<T>>&&\<close> overload;
  \<open>bind_MMT\<close> is \<^verbatim>\<open>monad<M_<M_<T>>>::bind\<close> and \<open>id\<close> the identity function object of the
  prelude.
\<close>

fun deriving_join ::
  "(value_category \<Rightarrow> 'mmt \<Rightarrow> ('mt \<Rightarrow> 'mt) \<Rightarrow> 'mt) \<Rightarrow> value_category \<Rightarrow> 'mmt \<Rightarrow> 'mt" where
  "deriving_join bind_MMT lvalue m = bind_MMT lvalue m id"
| "deriving_join bind_MMT rvalue m = bind_MMT rvalue m id"

text \<open>
  \<^verbatim>\<open>deriving_map<M>::map\<close> (lines 300 to 322). The callable handed to \<^verbatim>\<open>bind\<close> captures
  \<open>f\<close> and returns \<^verbatim>\<open>monad<M_<U>>::pure(f(t))\<close>; in the second overload it takes \<^verbatim>\<open>T&&\<close> and
  moves \<open>t\<close> into \<open>f\<close>, which is the same function of the value of \<open>t\<close>.
\<close>

fun deriving_map ::
  "(value_category \<Rightarrow> 'mt \<Rightarrow> ('t \<Rightarrow> 'mu) \<Rightarrow> 'mu) \<Rightarrow> ('u \<Rightarrow> 'mu) \<Rightarrow>
   value_category \<Rightarrow> ('t \<Rightarrow> 'u) \<Rightarrow> 'mt \<Rightarrow> 'mu" where
  "deriving_map bind_M pure_MU lvalue f m = bind_M lvalue m (\<lambda>t. pure_MU (f t))"
| "deriving_map bind_M pure_MU rvalue f m = bind_M rvalue m (\<lambda>t. pure_MU (f t))"

text \<open>
  \<^verbatim>\<open>deriving_bind<M>::bind\<close> (lines 350 to 376). \<open>map_MT\<close> is \<^verbatim>\<open>monad<M_<T>>::map\<close>, called
  on \<open>m\<close> or on \<^verbatim>\<open>std::move(m)\<close>; \<open>join_MU\<close> is \<^verbatim>\<open>monad<M_<U>>::join\<close>, called on the
  temporary that \<^verbatim>\<open>map\<close> returns.
\<close>

fun deriving_bind ::
  "(value_category \<Rightarrow> ('t \<Rightarrow> 'mu) \<Rightarrow> 'mt \<Rightarrow> 'mmu) \<Rightarrow> (value_category \<Rightarrow> 'mmu \<Rightarrow> 'mu) \<Rightarrow>
   value_category \<Rightarrow> 'mt \<Rightarrow> ('t \<Rightarrow> 'mu) \<Rightarrow> 'mu" where
  "deriving_bind map_MT join_MU lvalue m f = join_MU rvalue (map_MT lvalue f m)"
| "deriving_bind map_MT join_MU rvalue m f = join_MU rvalue (map_MT rvalue f m)"

text \<open>
  \<^verbatim>\<open>deriving_apply<M>::apply\<close> (lines 402 to 427). There is one overload: the wrapped
  function \<^verbatim>\<open>Mf&& f\<close> is forwarded with its category to \<^verbatim>\<open>monad<Mf_>::bind\<close>, the wrapped
  value \<^verbatim>\<open>M m\<close> is taken by value and captured by copy, so the inner \<^verbatim>\<open>monad<M>::bind\<close> is
  called on a named object.
\<close>

definition deriving_apply ::
  "(value_category \<Rightarrow> 'mf \<Rightarrow> (('t \<Rightarrow> 'u) \<Rightarrow> 'mu) \<Rightarrow> 'mu) \<Rightarrow>
   (value_category \<Rightarrow> 'mt \<Rightarrow> ('t \<Rightarrow> 'mu) \<Rightarrow> 'mu) \<Rightarrow> ('u \<Rightarrow> 'mu) \<Rightarrow>
   value_category \<Rightarrow> 'mf \<Rightarrow> 'mt \<Rightarrow> 'mu" where
  "deriving_apply bind_Mf bind_M pure_MU c f m =
     bind_Mf c f (\<lambda>fn. bind_M lvalue m (\<lambda>t. pure_MU (fn t)))"

subsection \<open>The monad descriptor\<close>

text \<open>
  \<^verbatim>\<open>template<typename M_> struct monad\<close> (monad.h, lines 109 to 209) is the descriptor of the
  family of \<^verbatim>\<open>M_\<close>: the flag \<^verbatim>\<open>instance\<close> and the static members \<^verbatim>\<open>pure\<close>, \<^verbatim>\<open>map\<close>, \<^verbatim>\<open>apply\<close>,
  \<^verbatim>\<open>bind\<close> and \<^verbatim>\<open>join\<close>. A specialisation declares the members it wants, so each member is
  optional: \<open>None\<close> is a member the specialisation does not declare. The members are
  templates; the record holds each at one instance. Its type parameters are \<open>'m\<close> for
  \<^verbatim>\<open>M<T>\<close>, \<open>'a\<close> for \<^verbatim>\<open>T\<close>, \<open>'p\<close> for what \<^verbatim>\<open>pure\<close> and \<^verbatim>\<open>join\<close> return (\<^verbatim>\<open>M<T>\<close>), \<open>'r\<close> for what
  \<^verbatim>\<open>map\<close>, \<^verbatim>\<open>apply\<close>, \<^verbatim>\<open>bind\<close> and the callable of \<^verbatim>\<open>bind\<close> return (\<^verbatim>\<open>M<U>\<close>), \<open>'n\<close> for
  \<^verbatim>\<open>M<M<T>>\<close>, \<open>'b\<close> for \<^verbatim>\<open>U\<close> and \<open>'f\<close> for \<^verbatim>\<open>M<F>\<close>. The results \<open>'p\<close> and \<open>'r\<close> are
  parameters of their own, so that a member may also be a procedure with an effect: then
  \<open>'p\<close> and \<open>'r\<close> are state transformers that return the wrapped value.
\<close>

record ('m, 'a, 'p, 'r, 'n, 'b, 'f) monad =
  monad_instance :: bool
  monad_pure :: "('a \<Rightarrow> 'p) option"
  monad_map :: "(value_category \<Rightarrow> ('a \<Rightarrow> 'b) \<Rightarrow> 'm \<Rightarrow> 'r) option"
  monad_apply :: "(value_category \<Rightarrow> 'f \<Rightarrow> 'm \<Rightarrow> 'r) option"
  monad_bind :: "(value_category \<Rightarrow> 'm \<Rightarrow> ('a \<Rightarrow> 'r) \<Rightarrow> 'r) option"
  monad_join :: "(value_category \<Rightarrow> 'n \<Rightarrow> 'p) option"

text \<open>
  The primary template: \<^verbatim>\<open>static constexpr bool instance = false\<close>, and no other member
  (the declarations under \<^verbatim>\<open>DOCUMENTATION_GENERATOR\<close> are not compiled). It is the descriptor
  of every type for which \<^verbatim>\<open>monad\<close> is not specialised.
\<close>

definition monad_primary :: "('m, 'a, 'p, 'r, 'n, 'b, 'f) monad" where
  "monad_primary =
     \<lparr>monad_instance = False, monad_pure = None, monad_map = None, monad_apply = None,
      monad_bind = None, monad_join = None\<rparr>"

text \<open>\<^verbatim>\<open>Monad<M>()\<close> (lines 231 to 234) returns \<^verbatim>\<open>monad<M>::instance\<close>.\<close>

definition Monad :: "('m, 'a, 'p, 'r, 'n, 'b, 'f) monad \<Rightarrow> bool" where
  "Monad d = monad_instance d"

text \<open>
  Modelled from the spec: the headers have no function that inspects which members a
  descriptor declares. Section 4.3 of the specification names two minimal cores,
  \<open>{bind, pure}\<close> and \<open>{join, map, pure}\<close>; a core is satisfied when its members are present.
\<close>

definition minimal_core :: "('m, 'a, 'p, 'r, 'n, 'b, 'f) monad \<Rightarrow> bool" where
  "minimal_core d =
     (case monad_pure d of
        None \<Rightarrow> False
      | Some _ \<Rightarrow>
          (case monad_bind d of
             Some _ \<Rightarrow> True
           | None \<Rightarrow>
               (case monad_join d of
                  None \<Rightarrow> False
                | Some _ \<Rightarrow> (case monad_map d of None \<Rightarrow> False | Some _ \<Rightarrow> True))))"

subsection \<open>The operator layer\<close>

text \<open>
  The operators are function templates; whether a call compiles is decided when the
  program is built. A call of an operator is modelled by its result or by the reason the
  build fails: \<open>not_viable\<close> when substitution fails in the declaration (a false
  \<^verbatim>\<open>std::enable_if\<close> condition, or a \<^verbatim>\<open>decltype\<close> of a call to a member that is not
  declared), which removes the template from the candidates, and \<open>ill_formed\<close> when the
  declaration is accepted and the body names a member that is not declared.
\<close>

datatype build_error = not_viable | ill_formed

text \<open>
  \<^verbatim>\<open>operator>>=\<close> (lines 451 to 460): \<open>d\<close> is \<^verbatim>\<open>monad<M_>\<close> for \<^verbatim>\<open>M_ = plain_type<M>\<close>; the
  guard is \<^verbatim>\<open>std::enable_if<Monad<M_>()>\<close>, the return type is the \<^verbatim>\<open>decltype\<close> of the call in
  the body, and \<open>m\<close> is forwarded with its category \<open>c\<close>.
\<close>

definition operator_shr_assign ::
  "('m, 'a, 'p, 'r, 'n, 'b, 'f) monad \<Rightarrow> value_category \<Rightarrow> 'm \<Rightarrow> ('a \<Rightarrow> 'r) \<Rightarrow> build_error + 'r" where
  "operator_shr_assign d c m f =
     (if Monad d then
        (case monad_bind d of
           None \<Rightarrow> Inl not_viable
         | Some bind \<Rightarrow> Inr (bind c m f))
      else Inl not_viable)"

text \<open>\<^verbatim>\<open>operator<<=\<close> (lines 470 to 479): the same call with the operands mirrored.\<close>

definition operator_shl_assign ::
  "('m, 'a, 'p, 'r, 'n, 'b, 'f) monad \<Rightarrow> value_category \<Rightarrow> ('a \<Rightarrow> 'r) \<Rightarrow> 'm \<Rightarrow> build_error + 'r" where
  "operator_shl_assign d c f m =
     (if Monad d then
        (case monad_bind d of
           None \<Rightarrow> Inl not_viable
         | Some bind \<Rightarrow> Inr (bind c m f))
      else Inl not_viable)"

text \<open>
  \<^verbatim>\<open>operator>>\<close> (lines 507 to 521): \<open>d\<close> is \<^verbatim>\<open>monad<Mt_>\<close>. The first guard is
  \<^verbatim>\<open>Monad<Mt_>()\<close>; the second, that \<^verbatim>\<open>Mu\<close> re-parametrised to \<^verbatim>\<open>T\<close> is \<^verbatim>\<open>Mt_\<close>, relates two
  types and is the typing of the model (\<open>'r\<close> is \<^verbatim>\<open>Mu\<close>). The callable captures \<open>m2\<close> by copy,
  ignores its argument and returns \<open>m2\<close>. The return type is \<^verbatim>\<open>Mu\<close>, so a missing \<^verbatim>\<open>bind\<close>
  is found in the body.
\<close>

definition operator_shr ::
  "('m, 'a, 'p, 'r, 'n, 'b, 'f) monad \<Rightarrow> value_category \<Rightarrow> 'm \<Rightarrow> 'r \<Rightarrow> build_error + 'r" where
  "operator_shr d c m1 m2 =
     (if Monad d then
        (case monad_bind d of
           None \<Rightarrow> Inl ill_formed
         | Some bind \<Rightarrow> Inr (bind c m1 (\<lambda>_. m2)))
      else Inl not_viable)"

text \<open>
  \<^verbatim>\<open>operator<<\<close>, the overload for \<^verbatim>\<open>const Mt& m1\<close> (lines 535 to 551): \<open>dt\<close> is \<^verbatim>\<open>monad<Mt>\<close>
  and \<open>du\<close> is \<^verbatim>\<open>monad<Mu>\<close>. The guard is \<^verbatim>\<open>Monad<Mt>()\<close>. The body calls \<^verbatim>\<open>monad<Mt>::bind\<close> on
  \<open>m1\<close>; its callable captures \<open>m2\<close> by copy and calls \<^verbatim>\<open>monad<Mu>::bind\<close> on the captured
  object, with a callable that captures \<open>t\<close>, ignores its argument and returns
  \<^verbatim>\<open>monad<Mt>::pure(t)\<close>.
\<close>

definition operator_shl_cref ::
  "('mt, 't, 'r, 'r, 'n, 'b, 'f) monad \<Rightarrow> ('mu, 'u, 'pu, 'r, 'nu, 'bu, 'fu) monad \<Rightarrow>
   'mt \<Rightarrow> 'mu \<Rightarrow> build_error + 'r" where
  "operator_shl_cref dt du m1 m2 =
     (if Monad dt then
        (case monad_bind dt of
           None \<Rightarrow> Inl ill_formed
         | Some bind_Mt \<Rightarrow>
             (case monad_bind du of
                None \<Rightarrow> Inl ill_formed
              | Some bind_Mu \<Rightarrow>
                  (case monad_pure dt of
                     None \<Rightarrow> Inl ill_formed
                   | Some pure_Mt \<Rightarrow>
                       Inr (bind_Mt lvalue m1
                              (\<lambda>t. bind_Mu lvalue m2 (\<lambda>_. pure_Mt t))))))
      else Inl not_viable)"

text \<open>
  \<^verbatim>\<open>operator<<\<close>, the overload for \<^verbatim>\<open>Mt&& m1\<close> (lines 553 to 569). Inside the body \<open>m1\<close> is a
  named reference, and the body passes it to \<^verbatim>\<open>monad<Mt>::bind\<close> as it is, without
  \<^verbatim>\<open>std::move\<close> or \<^verbatim>\<open>std::forward\<close>: the call is on an lvalue.
\<close>

definition operator_shl_rref ::
  "('mt, 't, 'r, 'r, 'n, 'b, 'f) monad \<Rightarrow> ('mu, 'u, 'pu, 'r, 'nu, 'bu, 'fu) monad \<Rightarrow>
   'mt \<Rightarrow> 'mu \<Rightarrow> build_error + 'r" where
  "operator_shl_rref dt du m1 m2 =
     (if Monad dt then
        (case monad_bind dt of
           None \<Rightarrow> Inl ill_formed
         | Some bind_Mt \<Rightarrow>
             (case monad_bind du of
                None \<Rightarrow> Inl ill_formed
              | Some bind_Mu \<Rightarrow>
                  (case monad_pure dt of
                     None \<Rightarrow> Inl ill_formed
                   | Some pure_Mt \<Rightarrow>
                       Inr (bind_Mt lvalue m1
                              (\<lambda>t. bind_Mu lvalue m2 (\<lambda>_. pure_Mt t))))))
      else Inl not_viable)"

text \<open>
  The expression \<^verbatim>\<open>m1 << m2\<close>. For an lvalue \<open>m1\<close> the second overload deduces \<^verbatim>\<open>Mt\<close> as a
  reference type, for which \<^verbatim>\<open>monad\<close> is not specialised, so only the first overload is
  viable; for an rvalue both are viable and the \<^verbatim>\<open>Mt&&\<close> overload is the better match.
\<close>

fun operator_shl ::
  "('mt, 't, 'r, 'r, 'n, 'b, 'f) monad \<Rightarrow> ('mu, 'u, 'pu, 'r, 'nu, 'bu, 'fu) monad \<Rightarrow>
   value_category \<Rightarrow> 'mt \<Rightarrow> 'mu \<Rightarrow> build_error + 'r" where
  "operator_shl dt du lvalue m1 m2 = operator_shl_cref dt du m1 m2"
| "operator_shl dt du rvalue m1 m2 = operator_shl_rref dt du m1 m2"

text \<open>
  \<^verbatim>\<open>liftM\<close> (lines 580 to 592): \<open>dt\<close> is \<^verbatim>\<open>monad<Mt>\<close> and \<open>du\<close> is \<^verbatim>\<open>monad<Mu>\<close>, where \<^verbatim>\<open>Mu\<close> is
  \<^verbatim>\<open>Mt\<close> re-parametrised to the result type of \<open>f\<close>. The guard is \<^verbatim>\<open>Monad<Mt>()\<close>; the body is
  \<^verbatim>\<open>m >>= \<close> a callable that returns \<^verbatim>\<open>monad<Mu>::pure(f(t))\<close>, with \<open>m\<close> a \<^verbatim>\<open>const Mt&\<close>. A
  failure of the inner \<^verbatim>\<open>>>=\<close> is an error in the body.
\<close>

definition liftM ::
  "('mt, 't, 'p, 'r, 'n, 'b, 'f) monad \<Rightarrow> ('mu, 'u, 'r, 'ru, 'nu, 'bu, 'fu) monad \<Rightarrow>
   ('t \<Rightarrow> 'u) \<Rightarrow> 'mt \<Rightarrow> build_error + 'r" where
  "liftM dt du f m =
     (if Monad dt then
        (case monad_pure du of
           None \<Rightarrow> Inl ill_formed
         | Some pure_Mu \<Rightarrow>
             (case operator_shr_assign dt lvalue m (\<lambda>t. pure_Mu (f t)) of
                Inl _ \<Rightarrow> Inl ill_formed
              | Inr r \<Rightarrow> Inr r))
      else Inl not_viable)"

subsection \<open>The optional family\<close>

text \<open>
  Modelled from the spec: the header of the optional family (\<^verbatim>\<open>ftl/maybe.h\<close>) is not among
  the sources. The specification's scenarios use an optional family with
  \<open>pure(x) = present(x)\<close> and \<open>nothing\<close> for the absent value.
\<close>

datatype 'a maybe = nothing | present 'a

text \<open>
  Modelled from the spec: \<open>pure\<close> of the optional family, \<open>pure(x) = present(x)\<close>.
\<close>

definition maybe_pure :: "'a \<Rightarrow> 'a maybe" where
  "maybe_pure x = present x"

text \<open>
  Modelled from the spec: \<open>bind\<close> of the optional family. On \<open>nothing\<close> the left side
  short-circuits and \<open>f\<close> is never invoked (scenario 4); on \<open>present(x)\<close> the result is
  \<open>f(x)\<close> (scenario 3). Both overloads compute the same value.
\<close>

fun maybe_bind :: "value_category \<Rightarrow> 'a maybe \<Rightarrow> ('a \<Rightarrow> 'b maybe) \<Rightarrow> 'b maybe" where
  "maybe_bind c nothing f = nothing"
| "maybe_bind c (present x) f = f x"

text \<open>
  Modelled from the spec: the descriptor of the optional family. After section 4.3 of the
  specification an instance supplies a minimal core natively and opts into derivation
  strategies for the rest: \<open>pure\<close> and \<open>bind\<close> are the native members above, and \<open>map\<close>,
  \<open>apply\<close> and \<open>join\<close> are inherited from \<open>deriving_map\<close>, \<open>deriving_apply\<close> and \<open>deriving_join\<close>.
\<close>

type_synonym ('a, 'b) maybe_monad =
  "('a maybe, 'a, 'a maybe, 'b maybe, 'a maybe maybe, 'b, ('a \<Rightarrow> 'b) maybe) monad"

definition monad_maybe :: "('a, 'b) maybe_monad" where
  "monad_maybe =
     \<lparr>monad_instance = True,
      monad_pure = Some maybe_pure,
      monad_map = Some (deriving_map maybe_bind maybe_pure),
      monad_apply = Some (deriving_apply maybe_bind maybe_bind maybe_pure),
      monad_bind = Some maybe_bind,
      monad_join = Some (deriving_join maybe_bind)\<rparr>"

text \<open>
  A specialisation that a client of the headers can write for an optional family of its
  own: it sets the flag to \<^verbatim>\<open>true\<close> and declares \<^verbatim>\<open>bind\<close> (with the body of \<open>maybe_bind\<close>) and
  no other member. The flag is a constant that the author of a specialisation writes
  (\<^verbatim>\<open>Implementors must override this default\<close>, line 115); nothing in the headers computes
  it from the members.
\<close>

definition monad_bind_only :: "('a, 'b) maybe_monad" where
  "monad_bind_only =
     \<lparr>monad_instance = True, monad_pure = None, monad_map = None, monad_apply = None,
      monad_bind = Some maybe_bind, monad_join = None\<rparr>"

subsection \<open>An optional family that records its calls\<close>

text \<open>
  Modelled from the spec: to count the calls of the native members, \<open>pure\<close> and \<open>bind\<close> of
  the optional family are written once more as procedures that append to a list of calls
  before they do what \<open>maybe_pure\<close> and \<open>maybe_bind\<close> do. A procedure that returns \<open>'x\<close> is a
  function from the list so far to the result and the list after. The \<open>tag\<close> names the
  instance whose member is called.
\<close>

datatype call = bind_called string value_category | pure_called string

type_synonym 'x traced = "call list \<Rightarrow> 'x \<times> call list"

definition traced_pure :: "string \<Rightarrow> 'a \<Rightarrow> 'a maybe traced" where
  "traced_pure tag x calls = (maybe_pure x, calls @ [pure_called tag])"

fun traced_bind ::
  "string \<Rightarrow> value_category \<Rightarrow> 'a maybe \<Rightarrow> ('a \<Rightarrow> 'b maybe traced) \<Rightarrow> 'b maybe traced" where
  "traced_bind tag c nothing f calls = (nothing, calls @ [bind_called tag c])"
| "traced_bind tag c (present x) f calls = f x (calls @ [bind_called tag c])"

definition monad_maybe_traced ::
  "string \<Rightarrow>
   ('a maybe, 'a, 'a maybe traced, 'b maybe traced, 'a maybe maybe, 'b, ('a \<Rightarrow> 'b) maybe) monad" where
  "monad_maybe_traced tag =
     \<lparr>monad_instance = True, monad_pure = Some (traced_pure tag), monad_map = None,
      monad_apply = None, monad_bind = Some (traced_bind tag), monad_join = None\<rparr>"

section \<open>What the derivation strategies compute\<close>

text \<open>
  C1. For a family that supplies \<open>bind\<close> and \<open>pure\<close> natively, the \<open>map\<close> of the
  derive-map-from-bind-and-pure strategy is \<open>map(f, m) = bind(m, x \<mapsto> pure(f(x)))\<close>, for every
  function \<open>f\<close> and wrapped value \<open>m\<close>, in the overload for either value category.
\<close>

theorem deriving_map_is_bind_pure:
  "deriving_map bind_M pure_MU c f m = bind_M c m (\<lambda>x. pure_MU (f x))"
  by (cases c) simp_all

text \<open>
  C2. For a family that supplies \<open>bind\<close> natively, the \<open>join\<close> of the derive-join-from-bind
  strategy is \<open>join(m) = bind(m, identity)\<close> for every doubly wrapped value \<open>m\<close>.
\<close>

theorem deriving_join_is_bind_id:
  "deriving_join bind_MMT c m = bind_MMT c m (\<lambda>x. x)"
  by (cases c) (simp_all add: id_def)

text \<open>
  C3. For a family that supplies \<open>join\<close> and \<open>map\<close> natively, the \<open>bind\<close> of the
  derive-bind-from-join-and-map strategy is \<open>bind(m, f) = join(map(f, m))\<close> for every wrapped
  value \<open>m\<close> and every function \<open>f\<close> from \<open>T\<close> to \<open>M<U>\<close>; \<open>join\<close> receives the temporary that
  \<open>map\<close> returned.
\<close>

theorem deriving_bind_is_join_map:
  "deriving_bind map_MT join_MU c m f = join_MU rvalue (map_MT c f m)"
  by (cases c) simp_all

text \<open>
  C4. For a family that supplies \<open>bind\<close> and \<open>pure\<close> natively, the \<open>apply\<close> of the
  derive-apply-from-bind-and-pure strategy is
  \<open>apply(mf, m) = bind(mf, f \<mapsto> bind(m, x \<mapsto> pure(f(x))))\<close> for every wrapped function \<open>mf\<close>
  and wrapped value \<open>m\<close>.
\<close>

theorem deriving_apply_is_bind_bind_pure:
  "deriving_apply bind_Mf bind_M pure_MU c mf m =
     bind_Mf c mf (\<lambda>f. bind_M lvalue m (\<lambda>x. pure_MU (f x)))"
  by (simp add: deriving_apply_def)

section \<open>Derivation preserves the laws\<close>

lemma maybe_left_identity: "maybe_bind c (maybe_pure x) k = k x"
  by (simp add: maybe_pure_def)

lemma maybe_right_identity: "maybe_bind c m maybe_pure = m"
  by (cases m) (simp_all add: maybe_pure_def)

lemma maybe_associativity:
  "maybe_bind c' (maybe_bind c m k) h = maybe_bind c m (\<lambda>x. maybe_bind c' (k x) h)"
  by (cases m) simp_all

text \<open>
  C5. Derivation preserves the algebraic laws. Let the native \<open>pure\<close> and \<open>bind\<close> of a
  family satisfy the monad laws in every overload: right identity \<open>bind(m, pure) = m\<close>, left
  identity \<open>bind(pure(x), k) = k(x)\<close> and associativity
  \<open>bind(bind(m, k), h) = bind(m, x \<mapsto> bind(k(x), h))\<close>. Then the \<open>map\<close> of the
  derive-map-from-bind-and-pure strategy satisfies the functor laws:
  \<open>map(identity, t) = t\<close> and \<open>map(compose(f, g), t) = map(f, map(g, t))\<close>, for every \<open>t\<close> and all
  functions \<open>f\<close>, \<open>g\<close>. The element types of \<open>t\<close>, of \<open>map(g, t)\<close> and of the result are
  \<open>T\<close>, \<open>U\<close> and \<open>V\<close>; \<open>bind_TU\<close> is the native \<open>bind\<close> from \<open>M<T>\<close> to \<open>M<U>\<close>, and so on.
\<close>

theorem deriving_map_functor_laws:
  assumes right_identity: "\<And>c m. bind_TT c m pure_T = m"
    and left_identity: "\<And>c x k. bind_UV c (pure_U x) k = k x"
    and associativity:
      "\<And>c c' m k h. bind_UV c' (bind_TU c m k) h = bind_TV c m (\<lambda>x. bind_UV c' (k x) h)"
  shows "deriving_map bind_TT pure_T c id t = t \<and>
         deriving_map bind_TV pure_V c (f \<circ> g) t =
           deriving_map bind_UV pure_V c' f (deriving_map bind_TU pure_U c g t)"
proof
  have "deriving_map bind_TT pure_T c id t = bind_TT c t (\<lambda>x. pure_T x)"
    by (cases c) simp_all
  then show "deriving_map bind_TT pure_T c id t = t"
    using right_identity [of c t] by simp
next
  have inner: "deriving_map bind_TU pure_U c g t = bind_TU c t (\<lambda>x. pure_U (g x))"
    by (cases c) simp_all
  have "deriving_map bind_UV pure_V c' f (deriving_map bind_TU pure_U c g t)
          = bind_UV c' (bind_TU c t (\<lambda>x. pure_U (g x))) (\<lambda>y. pure_V (f y))"
    unfolding inner by (cases c') simp_all
  also have "\<dots> = bind_TV c t (\<lambda>x. bind_UV c' (pure_U (g x)) (\<lambda>y. pure_V (f y)))"
    by (rule associativity)
  also have "\<dots> = bind_TV c t (\<lambda>x. pure_V (f (g x)))"
    by (simp add: left_identity)
  also have "\<dots> = deriving_map bind_TV pure_V c (f \<circ> g) t"
    by (cases c) simp_all
  finally show "deriving_map bind_TV pure_V c (f \<circ> g) t =
      deriving_map bind_UV pure_V c' f (deriving_map bind_TU pure_U c g t)"
    by (rule sym)
qed

theorem deriving_map_functor_laws_witness:
  "(\<forall>c (m :: int maybe). maybe_bind c m maybe_pure = m) \<and>
   (\<forall>c (x :: int) (k :: int \<Rightarrow> string maybe). maybe_bind c (maybe_pure x) k = k x) \<and>
   (\<forall>c c' (m :: int maybe) (k :: int \<Rightarrow> int maybe) (h :: int \<Rightarrow> string maybe).
      maybe_bind c' (maybe_bind c m k) h = maybe_bind c m (\<lambda>x. maybe_bind c' (k x) h)) \<and>
   deriving_map maybe_bind maybe_pure lvalue id (present (5::int)) = present 5 \<and>
   deriving_map maybe_bind maybe_pure lvalue ((\<lambda>n::int. replicate (nat n) CHR ''a'') \<circ> (\<lambda>x. x + 1))
       (present (1::int)) =
     deriving_map maybe_bind maybe_pure rvalue (\<lambda>n::int. replicate (nat n) CHR ''a'')
       (deriving_map maybe_bind maybe_pure lvalue (\<lambda>x. x + 1) (present (1::int)))"
  using deriving_map_functor_laws [of maybe_bind maybe_pure maybe_bind maybe_pure maybe_bind
      maybe_bind lvalue "present (5::int)" maybe_pure
      "\<lambda>n::int. replicate (nat n) CHR ''a''" "\<lambda>x::int. x + 1" rvalue,
      OF maybe_right_identity maybe_left_identity maybe_associativity]
  by (simp add: maybe_right_identity maybe_left_identity maybe_associativity)

section \<open>The sequencing operators\<close>

text \<open>
  C6. For every family whose descriptor is a monad instance and declares \<open>bind\<close>, and all
  compatible wrapped values \<open>m1\<close> and \<open>m2\<close>, the expression \<open>m1 >> m2\<close> discards the left
  result: it is \<open>bind(m1, \<lambda>_. m2)\<close>, with \<open>m1\<close> forwarded in its value category. In particular,
  for the optional family, \<open>present(3) >> present("a") = present("a")\<close>.
\<close>

theorem operator_shr_discards_left:
  "(Monad d \<and> monad_bind d = Some bind_Mt \<longrightarrow>
      operator_shr d c m1 m2 = Inr (bind_Mt c m1 (\<lambda>_. m2))) \<and>
   operator_shr monad_maybe c' (present (3::int)) (present ''a'') = Inr (present ''a'')"
  by (simp add: operator_shr_def Monad_def monad_maybe_def)

theorem operator_shr_discards_left_witness:
  "Monad (monad_maybe :: (int, string) maybe_monad) \<and>
   monad_bind (monad_maybe :: (int, string) maybe_monad) = Some maybe_bind \<and>
   operator_shr monad_maybe rvalue (nothing :: int maybe) (present ''a'') =
     Inr (maybe_bind rvalue nothing (\<lambda>_. present ''a'')) \<and>
   operator_shr monad_maybe rvalue (nothing :: int maybe) (present ''a'') = Inr nothing"
  using operator_shr_discards_left
    [of "monad_maybe :: (int, string) maybe_monad" maybe_bind rvalue nothing "present ''a''"]
  by (simp add: Monad_def monad_maybe_def)

text \<open>
  The procedures that record their calls return the values of \<open>maybe_pure\<close> and
  \<open>maybe_bind\<close>: the list of calls is the only thing they add.
\<close>

lemma traced_pure_value: "fst (traced_pure tag x calls) = maybe_pure x"
  by (simp add: traced_pure_def)

lemma traced_bind_value:
  "fst (traced_bind tag c m f calls) =
     maybe_bind c m (\<lambda>x. fst (f x (calls @ [bind_called tag c])))"
  by (cases m) simp_all

text \<open>
  C7. For every family whose descriptor is a monad instance and declares \<open>bind\<close> and \<open>pure\<close>,
  and all compatible wrapped values \<open>m1\<close> and \<open>m2\<close>, the expression \<open>m1 << m2\<close> runs both
  computations from left to right and returns the result of \<open>m1\<close> wrapped again: it is
  \<open>bind(m1, \<lambda>t. bind(m2, \<lambda>_. pure(t)))\<close>. In particular, for the optional family,
  \<open>present(3) << present("a") = present(3)\<close>, and on the family that records its calls the
  \<open>bind\<close> of the left side is called once, then the \<open>bind\<close> of the right side once, then
  \<open>pure\<close>.
\<close>

theorem operator_shl_returns_left:
  "(Monad dt \<and> monad_bind dt = Some bind_Mt \<and> monad_bind du = Some bind_Mu \<and>
    monad_pure dt = Some pure_Mt \<longrightarrow>
      operator_shl dt du c m1 m2 =
        Inr (bind_Mt lvalue m1 (\<lambda>t. bind_Mu lvalue m2 (\<lambda>_. pure_Mt t)))) \<and>
   operator_shl monad_maybe monad_maybe c' (present (3::int)) (present ''a'') = Inr (present 3) \<and>
   map_sum id (\<lambda>run. run [])
     (operator_shl (monad_maybe_traced ''maybe<int>'') (monad_maybe_traced ''maybe<string>'') c'
        (present (3::int)) (present ''a'')) =
     Inr (present 3,
          [bind_called ''maybe<int>'' lvalue, bind_called ''maybe<string>'' lvalue,
           pure_called ''maybe<int>''])"
  by (cases c; cases c')
     (simp_all add: operator_shl_cref_def operator_shl_rref_def Monad_def monad_maybe_def
        monad_maybe_traced_def maybe_pure_def traced_pure_def)

theorem operator_shl_returns_left_witness:
  "Monad (monad_maybe :: (int, int) maybe_monad) \<and>
   monad_bind (monad_maybe :: (int, int) maybe_monad) = Some maybe_bind \<and>
   monad_bind (monad_maybe :: (string, int) maybe_monad) = Some maybe_bind \<and>
   monad_pure (monad_maybe :: (int, int) maybe_monad) = Some maybe_pure \<and>
   operator_shl (monad_maybe :: (int, int) maybe_monad) (monad_maybe :: (string, int) maybe_monad)
       lvalue (present 3) nothing =
     Inr (maybe_bind lvalue (present 3)
            (\<lambda>t. maybe_bind lvalue (nothing :: string maybe) (\<lambda>_. maybe_pure t))) \<and>
   operator_shl (monad_maybe :: (int, int) maybe_monad) (monad_maybe :: (string, int) maybe_monad)
       lvalue (present 3) nothing = Inr nothing"
  using operator_shl_returns_left
    [of "monad_maybe :: (int, int) maybe_monad" maybe_bind
        "monad_maybe :: (string, int) maybe_monad" maybe_bind maybe_pure lvalue
        "present 3" nothing]
  by (simp add: Monad_def monad_maybe_def)

text \<open>
  C10. The overload of \<open><<\<close> for \<^verbatim>\<open>Mt&&\<close> gives the result of the overload for
  \<^verbatim>\<open>const Mt&\<close>, for every pair of descriptors and all \<open>m1\<close>, \<open>m2\<close>: it calls \<open>bind\<close> on \<open>m1\<close> as
  an lvalue and never moves \<open>m1\<close>, whatever the \<^verbatim>\<open>&&\<close> overload of the native \<open>bind\<close> would do.
\<close>

theorem operator_shl_rref_is_cref:
  "operator_shl_rref dt du m1 m2 = operator_shl_cref dt du m1 m2 \<and>
   (Monad dt \<and> monad_bind dt = Some bind_Mt \<and> monad_bind du = Some bind_Mu \<and>
    monad_pure dt = Some pure_Mt \<longrightarrow>
      operator_shl_rref dt du m1 m2 =
        Inr (bind_Mt lvalue m1 (\<lambda>t. bind_Mu lvalue m2 (\<lambda>_. pure_Mt t))))"
  by (simp add: operator_shl_rref_def operator_shl_cref_def)

theorem operator_shl_rref_is_cref_witness:
  "Monad (monad_maybe_traced ''L'' :: (int maybe, int, int maybe traced, int maybe traced,
      int maybe maybe, int, (int \<Rightarrow> int) maybe) monad) \<and>
   operator_shl_rref (monad_maybe_traced ''L'') (monad_maybe_traced ''R'')
        (present (7::int)) (nothing :: string maybe) =
   operator_shl_cref (monad_maybe_traced ''L'') (monad_maybe_traced ''R'')
        (present (7::int)) (nothing :: string maybe) \<and>
   map_sum id (\<lambda>run. run [])
     (operator_shl_rref (monad_maybe_traced ''L'') (monad_maybe_traced ''R'')
        (present (7::int)) (nothing :: string maybe)) =
     Inr (nothing, [bind_called ''L'' lvalue, bind_called ''R'' lvalue])"
proof -
  note both = operator_shl_rref_is_cref
    [of "monad_maybe_traced ''L''" "monad_maybe_traced ''R''" "present (7::int)"
        "nothing :: string maybe" "traced_bind ''L''" "traced_bind ''R''" "traced_pure ''L''"]
  have flag: "Monad (monad_maybe_traced ''L'' :: (int maybe, int, int maybe traced,
      int maybe traced, int maybe maybe, int, (int \<Rightarrow> int) maybe) monad)"
    by (simp add: Monad_def monad_maybe_traced_def)
  have same: "operator_shl_rref (monad_maybe_traced ''L'') (monad_maybe_traced ''R'')
        (present (7::int)) (nothing :: string maybe) =
      operator_shl_cref (monad_maybe_traced ''L'') (monad_maybe_traced ''R'')
        (present (7::int)) (nothing :: string maybe)"
    by (rule both [THEN conjunct1])
  have "operator_shl_rref (monad_maybe_traced ''L'') (monad_maybe_traced ''R'')
        (present (7::int)) (nothing :: string maybe) =
      Inr (traced_bind ''L'' lvalue (present 7)
             (\<lambda>t. traced_bind ''R'' lvalue (nothing :: string maybe)
                   (\<lambda>_. traced_pure ''L'' t)))"
    by (rule both [THEN conjunct2, rule_format]) (simp add: Monad_def monad_maybe_traced_def)
  then have run: "map_sum id (\<lambda>run. run [])
     (operator_shl_rref (monad_maybe_traced ''L'') (monad_maybe_traced ''R'')
        (present (7::int)) (nothing :: string maybe)) =
     Inr (nothing, [bind_called ''L'' lvalue, bind_called ''R'' lvalue])"
    by simp
  from flag same run show ?thesis by blast
qed

section \<open>Families that are not instances\<close>

text \<open>
  The flag of a descriptor is not computed from its members: \<open>monad_bind_only\<close> satisfies
  neither minimal core (it has no \<open>pure\<close>), its flag is true, and \<open>>>=\<close> is selected for it
  and runs its \<open>bind\<close>.
\<close>

theorem flag_not_computed_counterexample:
  "\<not> minimal_core (monad_bind_only :: (int, int) maybe_monad) \<and>
   Monad (monad_bind_only :: (int, int) maybe_monad) \<and>
   operator_shr_assign (monad_bind_only :: (int, int) maybe_monad) lvalue (present 5)
     (\<lambda>x. present (x * 2)) = Inr (present 10)"
  by (simp add: minimal_core_def Monad_def monad_bind_only_def operator_shr_assign_def)

text \<open>
  C9, amended. For every family whose monad descriptor is not specialised the flag is
  false, \<^verbatim>\<open>Monad<M>()\<close> returns \<open>false\<close>; and for every descriptor whose flag is false, every
  combinator of the operator layer (\<open>>>=\<close>, \<open><<=\<close>, \<open>>>\<close>, \<open><<\<close>, \<open>liftM\<close>) is statically
  excluded: the template is removed from the candidates when the program is built, whatever
  the operands are, and no result is computed.
\<close>

theorem operators_excluded_without_instance:
  "\<not> Monad monad_primary \<and>
   (\<not> Monad d1 \<longrightarrow> operator_shr_assign d1 c1 m1 f1 = Inl not_viable) \<and>
   (\<not> Monad d2 \<longrightarrow> operator_shl_assign d2 c2 f2 m2 = Inl not_viable) \<and>
   (\<not> Monad d3 \<longrightarrow> operator_shr d3 c3 m3 n3 = Inl not_viable) \<and>
   (\<not> Monad d4 \<longrightarrow> operator_shl d4 e4 c4 m4 n4 = Inl not_viable) \<and>
   (\<not> Monad d5 \<longrightarrow> liftM d5 e5 f5 m5 = Inl not_viable)"
  by (cases c4)
     (simp_all add: Monad_def monad_primary_def operator_shr_assign_def operator_shl_assign_def
        operator_shr_def operator_shl_cref_def operator_shl_rref_def liftM_def)

theorem operators_excluded_without_instance_witness:
  "\<not> Monad (monad_primary :: (int, int) maybe_monad) \<and>
   operator_shr_assign (monad_primary :: (int, int) maybe_monad) lvalue (present 5)
     (\<lambda>x. present (x * 2)) = Inl not_viable \<and>
   operator_shl_assign (monad_primary :: (int, int) maybe_monad) rvalue
     (\<lambda>x. present (x * 2)) (present 5) = Inl not_viable \<and>
   operator_shr (monad_primary :: (int, string) maybe_monad) lvalue (present 3) (present ''a'') =
     Inl not_viable \<and>
   operator_shl (monad_primary :: (int, int) maybe_monad) (monad_maybe :: (string, int) maybe_monad)
     rvalue (present 3) (present ''a'') = Inl not_viable \<and>
   liftM (monad_primary :: (int, int) maybe_monad) (monad_maybe :: (int, int) maybe_monad)
     (\<lambda>x. x + 1) (present 5) = Inl not_viable"
  using operators_excluded_without_instance
    [where ?d1.0 = "monad_primary :: (int, int) maybe_monad" and ?c1.0 = lvalue
       and ?m1.0 = "present 5" and ?f1.0 = "\<lambda>x. present (x * 2)"
       and ?d2.0 = "monad_primary :: (int, int) maybe_monad" and ?c2.0 = rvalue
       and ?m2.0 = "present 5" and ?f2.0 = "\<lambda>x. present (x * 2)"
       and ?d3.0 = "monad_primary :: (int, string) maybe_monad" and ?c3.0 = lvalue
       and ?m3.0 = "present 3" and ?n3.0 = "present ''a''"
       and ?d4.0 = "monad_primary :: (int, int) maybe_monad"
       and ?e4.0 = "monad_maybe :: (string, int) maybe_monad" and ?c4.0 = rvalue
       and ?m4.0 = "present 3" and ?n4.0 = "present ''a''"
       and ?d5.0 = "monad_primary :: (int, int) maybe_monad"
       and ?e5.0 = "monad_maybe :: (int, int) maybe_monad"
       and ?f5.0 = "\<lambda>x. x + 1" and ?m5.0 = "present 5"]
  by (simp add: Monad_def monad_primary_def)

end
